theory Spec2Isabelle
  imports Complex_Main "HOL-Library.Monad_Syntax"
begin

section \<open>Double-precision values\<close>

text \<open>
  Every quantity of the pricer is a C++ \<^verbatim>\<open>double\<close>. A double is modelled as a real
  number or one of the three special values of IEEE 754: plus infinity, minus infinity and
  not-a-number. The special values are kept because the program divides by counts that can
  be zero and takes square roots and logarithms of user input; no operation of the
  arithmetic raises. Three things are idealised: a finite result is the exact real result
  (no rounding), a finite result is never too large to represent (no overflow to infinity),
  and zero has no sign: a zero divisor counts as \<open>+0\<close>, which is what the conversion of
  an unsigned integer yields.
\<close>

datatype double = Fin real | PInf | NInf | NaN

instantiation double :: "{uminus, plus, minus, times, inverse}"
begin

fun uminus_double :: "double \<Rightarrow> double" where
  "uminus_double (Fin a) = Fin (- a)"
| "uminus_double PInf = NInf"
| "uminus_double NInf = PInf"
| "uminus_double NaN = NaN"

fun plus_double :: "double \<Rightarrow> double \<Rightarrow> double" where
  "plus_double NaN y = NaN"
| "plus_double x NaN = NaN"
| "plus_double (Fin a) (Fin b) = Fin (a + b)"
| "plus_double PInf NInf = NaN"
| "plus_double NInf PInf = NaN"
| "plus_double PInf y = PInf"
| "plus_double x PInf = PInf"
| "plus_double NInf y = NInf"
| "plus_double x NInf = NInf"

definition minus_double :: "double \<Rightarrow> double \<Rightarrow> double" where
  "minus_double x y = x + (- y)"

fun times_double :: "double \<Rightarrow> double \<Rightarrow> double" where
  "times_double NaN y = NaN"
| "times_double x NaN = NaN"
| "times_double (Fin a) (Fin b) = Fin (a * b)"
| "times_double (Fin a) PInf = (if a = 0 then NaN else if 0 < a then PInf else NInf)"
| "times_double (Fin a) NInf = (if a = 0 then NaN else if 0 < a then NInf else PInf)"
| "times_double PInf (Fin b) = (if b = 0 then NaN else if 0 < b then PInf else NInf)"
| "times_double NInf (Fin b) = (if b = 0 then NaN else if 0 < b then NInf else PInf)"
| "times_double PInf PInf = PInf"
| "times_double PInf NInf = NInf"
| "times_double NInf PInf = NInf"
| "times_double NInf NInf = PInf"

fun divide_double :: "double \<Rightarrow> double \<Rightarrow> double" where
  "divide_double NaN y = NaN"
| "divide_double x NaN = NaN"
| "divide_double (Fin a) (Fin b) =
     (if b = 0 then (if a = 0 then NaN else if 0 < a then PInf else NInf) else Fin (a / b))"
| "divide_double (Fin a) PInf = Fin 0"
| "divide_double (Fin a) NInf = Fin 0"
| "divide_double PInf (Fin b) = (if 0 \<le> b then PInf else NInf)"
| "divide_double NInf (Fin b) = (if 0 \<le> b then NInf else PInf)"
| "divide_double PInf PInf = NaN"
| "divide_double PInf NInf = NaN"
| "divide_double NInf PInf = NaN"
| "divide_double NInf NInf = NaN"

definition inverse_double :: "double \<Rightarrow> double" where
  "inverse_double x = divide (Fin 1) x"

instance ..

end

text \<open>\<^verbatim>\<open>sqrt\<close>, \<^verbatim>\<open>exp\<close>, \<^verbatim>\<open>log\<close> and \<^verbatim>\<open>abs\<close> of \<^verbatim>\<open><cmath>\<close>.\<close>

fun dsqrt :: "double \<Rightarrow> double" where
  "dsqrt (Fin a) = (if a < 0 then NaN else Fin (sqrt a))"
| "dsqrt PInf = PInf"
| "dsqrt NInf = NaN"
| "dsqrt NaN = NaN"

fun dexp :: "double \<Rightarrow> double" where
  "dexp (Fin a) = Fin (exp a)"
| "dexp PInf = PInf"
| "dexp NInf = Fin 0"
| "dexp NaN = NaN"

fun dlog :: "double \<Rightarrow> double" where
  "dlog (Fin a) = (if a < 0 then NaN else if a = 0 then NInf else Fin (ln a))"
| "dlog PInf = PInf"
| "dlog NInf = NaN"
| "dlog NaN = NaN"

fun dabs :: "double \<Rightarrow> double" where
  "dabs (Fin a) = Fin \<bar>a\<bar>"
| "dabs PInf = PInf"
| "dabs NInf = PInf"
| "dabs NaN = NaN"

text \<open>The comparison \<^verbatim>\<open><\<close> on doubles: false as soon as one side is not-a-number.\<close>

fun dless :: "double \<Rightarrow> double \<Rightarrow> bool" where
  "dless NaN y = False"
| "dless x NaN = False"
| "dless (Fin a) (Fin b) = (a < b)"
| "dless x NInf = False"
| "dless PInf y = False"
| "dless NInf y = True"
| "dless x PInf = True"

text \<open>
  \<^verbatim>\<open>pow(x, y)\<close>. Every exponent the program passes is a finite constant (\<open>2\<close>,
  \<open>betaCEV\<close> and \<open>2.0 * betaCEV - 1.0\<close>), so the exponent is a real number here. A whole
  exponent is repeated multiplication (and a division for a negative one), which also
  gives \<^verbatim>\<open>pow(x, 0) = 1\<close> for every \<open>x\<close>; any other exponent is defined for a
  non-negative base only.
\<close>

fun dpow_nat :: "double \<Rightarrow> nat \<Rightarrow> double" where
  "dpow_nat x 0 = Fin 1"
| "dpow_nat x (Suc n) = x * dpow_nat x n"

definition dpow :: "double \<Rightarrow> real \<Rightarrow> double" where
  "dpow x y =
     (if y = of_int \<lfloor>y\<rfloor> then
        (if 0 \<le> y then dpow_nat x (nat \<lfloor>y\<rfloor>) else Fin 1 / dpow_nat x (nat \<lfloor>- y\<rfloor>))
      else
        (case x of
           Fin a \<Rightarrow> (if a < 0 then NaN
                      else if a = 0 then (if 0 < y then Fin 0 else PInf)
                      else Fin (a powr y))
         | PInf \<Rightarrow> (if 0 < y then PInf else Fin 0)
         | NInf \<Rightarrow> (if 0 < y then PInf else Fin 0)
         | NaN \<Rightarrow> NaN))"

section \<open>FDM_SDE: the stochastic differential equation\<close>

text \<open>\<^verbatim>\<open>FDM_SDE::GBM\<close>: the drift part of the closed-form solution.\<close>

definition GBM :: "double \<Rightarrow> double \<Rightarrow> double \<Rightarrow> double \<Rightarrow> double" where
  "GBM S T sigma r = S * dexp (T * (r - Fin 0.5 * sigma * sigma))"

definition drift :: "double \<Rightarrow> double \<Rightarrow> double" where
  "drift r S = r * S"

definition diffusion :: "double \<Rightarrow> double \<Rightarrow> double" where
  "diffusion vol S = (let betaCEV = 1 in vol * dpow S betaCEV)"

definition diffusion_derivative :: "double \<Rightarrow> double \<Rightarrow> double" where
  "diffusion_derivative vol S =
     (let betaCEV = 1 in Fin 0.5 * vol * Fin betaCEV * dpow S (2 * betaCEV - 1))"

text \<open>
  The assignment to \<^verbatim>\<open>VNew\<close> in the time loop of the Explicit Euler case and of the
  Milstein case of \<^verbatim>\<open>Pricer::GeneralPricer\<close>. \<open>dt_sq\<close> is the square root of \<open>dt\<close>,
  computed once before the loops.
\<close>

definition euler_update :: "double \<Rightarrow> double \<Rightarrow> double \<Rightarrow> double \<Rightarrow> double \<Rightarrow> double \<Rightarrow> double" where
  "euler_update dt dt_sq r vol VOld Normal =
     VOld + dt * drift r VOld + (dt_sq * diffusion vol VOld * Normal)"

definition milstein_update :: "double \<Rightarrow> double \<Rightarrow> double \<Rightarrow> double \<Rightarrow> double \<Rightarrow> double \<Rightarrow> double" where
  "milstein_update dt dt_sq r vol VOld Normal =
     VOld + (dt * drift r VOld) + (dt_sq * diffusion vol VOld * Normal)
       + Fin 0.5 * diffusion vol VOld * diffusion_derivative vol VOld
           * (dpow (dt_sq * Normal) 2 - dt)"

section \<open>Input: the option data\<close>

text \<open>
  \<^verbatim>\<open>OptionData\<close> is the tuple (volatility, interest rate, expiry time, stock price,
  strike price, number of simulations). The number of simulations is an
  \<^verbatim>\<open>unsigned long\<close>; it is a natural number here, of whatever width the platform gives
  the type.
\<close>

record OptionData =
  od_vol :: double
  od_r :: double
  od_T :: double
  od_S :: double
  od_K :: double
  od_NSIM :: nat

section \<open>RNG: the random number generators\<close>

text \<open>
  The engines and \<^verbatim>\<open>std::normal_distribution\<close> belong to the C++ standard library. What
  the program uses of them is the sequence of normal variates that a freshly seeded engine
  yields through a fresh distribution object: \<open>variates seed k\<close> is the \<open>k\<close>-th of them.
  \<open>default_seed\<close> is the seed of a default-constructed \<^verbatim>\<open>std::default_random_engine\<close>.
\<close>

record stdlib =
  default_engine_variates :: "nat \<Rightarrow> nat \<Rightarrow> double"
  mt19937_variates :: "nat \<Rightarrow> nat \<Rightarrow> double"
  default_seed :: nat

text \<open>
  \<^verbatim>\<open>RNGFunctionType\<close> is a function without arguments that returns a double. The two
  generators of the class read the high-resolution clock on every call, so a generator is
  a function of the clock reading (the tick count) at the call. The count is cast to
  \<^verbatim>\<open>unsigned int\<close> to seed a new engine, whose first variate is returned.
\<close>

type_synonym RNGFunctionType = "int \<Rightarrow> double"

definition DefaultRandomEngine :: "stdlib \<Rightarrow> RNGFunctionType" where
  "DefaultRandomEngine lib now =
     (let seed = now in default_engine_variates lib (nat (seed mod 2 ^ 32)) 0)"

definition MersenneTwisterEngine :: "stdlib \<Rightarrow> RNGFunctionType" where
  "MersenneTwisterEngine lib now =
     (let seed = now in mt19937_variates lib (nat (seed mod 2 ^ 32)) 0)"

section \<open>Pricer\<close>

datatype error = Undefined_Behaviour | Domain_Error

text \<open>
  The members of \<^verbatim>\<open>Pricer\<close> that \<^verbatim>\<open>GeneralPricer\<close>, \<^verbatim>\<open>output\<close> and
  \<^verbatim>\<open>MIS_output\<close> read or write. \<open>mp_rng\<close>, \<open>mp_fdm\<close> and \<open>mp_payoff\<close> are the three
  components of the tuple \<^verbatim>\<open>model_parameters\<close>. The payoff function comes from the class
  \<^verbatim>\<open>Payoff\<close>, as do the two caps that \<^verbatim>\<open>GetUpperCap\<close> and \<^verbatim>\<open>GetLowerCap\<close> return; the
  pricer holds the payoff as a function value and calls it with the strike and an asset
  value.
\<close>

record Pricer =
  mp_rng :: RNGFunctionType
  mp_fdm :: int
  mp_payoff :: "double \<Rightarrow> double \<Rightarrow> double"
  parameter_names :: "string list"
  option_data :: OptionData
  explicit_euler :: bool
  NSteps :: nat
  stock_flunct :: "double list"
  option_prices :: "double list"
  m_price :: double
  upper_cap :: double
  lower_cap :: double

text \<open>
  \<^verbatim>\<open>std::regex_match\<close> against \<^verbatim>\<open>(Asian)(.*)\<close> and against \<^verbatim>\<open>(.*)(Call)\<close>: the whole
  name has to match, and the dot matches every character but a line terminator.
\<close>

definition line_terminator :: "char \<Rightarrow> bool" where
  "line_terminator c = (c = CHR 0x0A \<or> c = CHR 0x0D)"

definition regex_match_Asian :: "string \<Rightarrow> bool" where
  "regex_match_Asian name =
     (take 5 name = ''Asian'' \<and> list_all (\<lambda>c. \<not> line_terminator c) (drop 5 name))"

definition regex_match_Call :: "string \<Rightarrow> bool" where
  "regex_match_Call name =
     (4 \<le> length name \<and> drop (length name - 4) name = ''Call''
        \<and> list_all (\<lambda>c. \<not> line_terminator c) (take (length name - 4) name))"

text \<open>
  The indicator for Asian options:
  \<^verbatim>\<open>bool asian = false; if (std::regex_match(parameter_names[2], reg)) { bool asian = true; }\<close>
  The braces of the conditional declare a second variable \<^verbatim>\<open>asian\<close>, which ends with
  them; the loops below read the first one.
\<close>

definition asian_indicator :: "string \<Rightarrow> bool" where
  "asian_indicator name =
     (let asian = False;
          inner_asian = (if regex_match_Asian name then Some True else None)
      in asian)"

text \<open>
  The local variables of \<^verbatim>\<open>GeneralPricer\<close> that the loops change, the two sample vectors,
  and the number of variates drawn from the local engine so far. \<^verbatim>\<open>VOld\<close> and
  \<^verbatim>\<open>VNew\<close> are declared without a value; they start as not-a-number here, and every
  path through the loops writes them before it reads them (the time loop starts at
  \<open>j = 0 \<le> NSteps\<close>, so its body runs at least once for every path).
\<close>

record sim =
  v_VOld :: double
  v_VNew :: double
  v_price :: double
  v_average_price :: double
  v_drawn :: nat
  v_stock_flunct :: "double list"
  v_option_prices :: "double list"

text \<open>
  Case 1, the body of \<^verbatim>\<open>for (unsigned i = 0; i < NSIM; i++)\<close>. The loops read the local
  copies of the option data and of the payoff, which are arguments here. The progress line
  printed every 10000 paths is console output and left out, here and below.
\<close>

definition gbm_path ::
  "(nat \<Rightarrow> double) \<Rightarrow> (double \<Rightarrow> double \<Rightarrow> double) \<Rightarrow> double \<Rightarrow> double \<Rightarrow> double \<Rightarrow> nat \<Rightarrow> sim \<Rightarrow> sim" where
  "gbm_path eng option_payoff vol T K NSIM s =
     (let Normal = eng (v_drawn s);
          VNew = v_VOld s * dexp (dsqrt (vol * vol * T) * Normal);
          tmp = option_payoff K VNew
      in s\<lparr>v_VNew := VNew,
            v_drawn := v_drawn s + 1,
            v_stock_flunct := v_stock_flunct s @ [VNew],
            v_option_prices := v_option_prices s @ [tmp],
            v_price := v_price s + tmp / Fin (of_nat NSIM)\<rparr>)"

text \<open>
  The counters \<open>i\<close> and \<open>j\<close> are \<^verbatim>\<open>unsigned\<close>, 32 bits wide: the increment wraps around.
  A loop whose bound the counter cannot pass does not end, so the loops are partial
  functions and \<open>None\<close> stands for a run that does not return.
\<close>

partial_function (option) gbm_paths ::
  "(nat \<Rightarrow> double) \<Rightarrow> (double \<Rightarrow> double \<Rightarrow> double) \<Rightarrow> double \<Rightarrow> double \<Rightarrow> double \<Rightarrow> nat \<Rightarrow> nat \<Rightarrow> sim
     \<Rightarrow> sim option" where
  "gbm_paths eng option_payoff vol T K NSIM i s =
     (if i < NSIM
      then gbm_paths eng option_payoff vol T K NSIM ((i + 1) mod 2 ^ 32)
             (gbm_path eng option_payoff vol T K NSIM s)
      else Some s)"

text \<open>
  Cases 2 and 3 are the same two loops around a different assignment to \<^verbatim>\<open>VNew\<close>;
  \<open>update\<close> is that assignment, as a function of \<^verbatim>\<open>VOld\<close> and the variate. First the
  body of \<^verbatim>\<open>for (unsigned j = 0; j <= NSteps; j++)\<close>.
\<close>

definition time_step :: "(double \<Rightarrow> double \<Rightarrow> double) \<Rightarrow> (nat \<Rightarrow> double) \<Rightarrow> bool \<Rightarrow> sim \<Rightarrow> sim" where
  "time_step update eng asian s =
     (let Normal = eng (v_drawn s);
          VNew = update (v_VOld s) Normal
      in s\<lparr>v_VNew := VNew,
            v_VOld := VNew,
            v_drawn := v_drawn s + 1,
            v_average_price := (if asian then v_average_price s + VNew else v_average_price s)\<rparr>)"

partial_function (option) time_steps ::
  "(double \<Rightarrow> double \<Rightarrow> double) \<Rightarrow> (nat \<Rightarrow> double) \<Rightarrow> bool \<Rightarrow> nat \<Rightarrow> nat \<Rightarrow> sim \<Rightarrow> sim option" where
  "time_steps update eng asian NSteps_v j s =
     (if j \<le> NSteps_v
      then time_steps update eng asian NSteps_v ((j + 1) mod 2 ^ 32) (time_step update eng asian s)
      else Some s)"

text \<open>What the body of \<^verbatim>\<open>for (unsigned i = 1; i <= NSIM; ++i)\<close> does after the time loop.\<close>

definition path_end :: "bool \<Rightarrow> (double \<Rightarrow> double \<Rightarrow> double) \<Rightarrow> double \<Rightarrow> nat \<Rightarrow> sim \<Rightarrow> sim" where
  "path_end asian option_payoff K NSteps_v s =
     (let tmp = (if asian then option_payoff K (v_average_price s / Fin (of_nat NSteps_v))
                 else option_payoff K (v_VNew s))
      in s\<lparr>v_stock_flunct := v_stock_flunct s @ [v_VNew s],
            v_option_prices := v_option_prices s @ [tmp],
            v_price := v_price s + tmp\<rparr>)"

partial_function (option) sde_paths ::
  "(double \<Rightarrow> double \<Rightarrow> double) \<Rightarrow> (nat \<Rightarrow> double) \<Rightarrow> bool \<Rightarrow> (double \<Rightarrow> double \<Rightarrow> double) \<Rightarrow> double \<Rightarrow> double
     \<Rightarrow> nat \<Rightarrow> nat \<Rightarrow> nat \<Rightarrow> sim \<Rightarrow> sim option" where
  "sde_paths update eng asian option_payoff S K NSteps_v NSIM i s =
     (if i \<le> NSIM
      then do {
        s' \<leftarrow> time_steps update eng asian NSteps_v 0 (s\<lparr>v_VOld := S\<rparr>);
        sde_paths update eng asian option_payoff S K NSteps_v NSIM ((i + 1) mod 2 ^ 32)
          (path_end asian option_payoff K NSteps_v s')
      }
      else Some s)"

text \<open>
  One pass of the path loop of cases 2 and 3 when the time loop runs its \<open>NSteps + 1\<close>
  steps: the reset of \<^verbatim>\<open>VOld\<close>, the steps, and the end of the body.
\<close>

definition sde_path ::
  "(double \<Rightarrow> double \<Rightarrow> double) \<Rightarrow> (nat \<Rightarrow> double) \<Rightarrow> bool \<Rightarrow> (double \<Rightarrow> double \<Rightarrow> double) \<Rightarrow> double \<Rightarrow> double
     \<Rightarrow> nat \<Rightarrow> sim \<Rightarrow> sim" where
  "sde_path update eng asian option_payoff S K NSteps_v s =
     path_end asian option_payoff K NSteps_v
       ((time_step update eng asian ^^ Suc NSteps_v) (s\<lparr>v_VOld := S\<rparr>))"

text \<open>
  The engine of the simulation is the local variable \<^verbatim>\<open>std::default_random_engine eng;\<close>
  replaced by \<^verbatim>\<open>std::mt19937(NULL)\<close> when the first name equals
  \<^verbatim>\<open>"Mersenne Twister Engine"\<close>. \<open>local_engine\<close> is the sequence of variates it yields
  through the local distribution object. The generator that the user selected, \<open>mp_rng\<close>,
  is not called.
\<close>

definition local_engine :: "stdlib \<Rightarrow> string list \<Rightarrow> nat \<Rightarrow> double" where
  "local_engine lib names =
     (if names ! 0 = ''Mersenne Twister Engine''
      then mt19937_variates lib 0
      else default_engine_variates lib (default_seed lib))"

definition store :: "Pricer \<Rightarrow> sim \<Rightarrow> double \<Rightarrow> Pricer" where
  "store p s price =
     p\<lparr>stock_flunct := v_stock_flunct s, option_prices := v_option_prices s, m_price := price\<rparr>"

text \<open>
  \<^verbatim>\<open>Pricer::GeneralPricer\<close>. The result is the pricer after the call; the value the C++
  function returns is its \<open>m_price\<close>. Reading \<^verbatim>\<open>parameter_names[2]\<close> of a vector with
  fewer than three names is undefined behaviour. No statement of the function throws or
  returns early.
\<close>

definition GeneralPricer :: "stdlib \<Rightarrow> Pricer \<Rightarrow> (error + Pricer) option" where
  "GeneralPricer lib p =
     (let vol = od_vol (option_data p); r = od_r (option_data p); T = od_T (option_data p);
          S = od_S (option_data p); K = od_K (option_data p); NSIM = od_NSIM (option_data p);
          fdm_model_choice = mp_fdm p;
          option_payoff = mp_payoff p
      in if length (parameter_names p) < 3 then Some (Inl Undefined_Behaviour)
         else
           let asian = asian_indicator (parameter_names p ! 2);
               dt = T / Fin (of_nat (NSteps p));
               dt_sq = dsqrt dt;
               eng = local_engine lib (parameter_names p);
               s0 = \<lparr>v_VOld = NaN, v_VNew = NaN, v_price = Fin 0, v_average_price = Fin 0,
                     v_drawn = 0, v_stock_flunct = stock_flunct p,
                     v_option_prices = option_prices p\<rparr>
           in if fdm_model_choice = 1 then do {
                s \<leftarrow> gbm_paths eng option_payoff vol T K NSIM 0 (s0\<lparr>v_VOld := GBM S T vol r\<rparr>);
                Some (Inr (store p s (v_price s * dexp (- r * T))))
              }
              else if fdm_model_choice = 2 then do {
                s \<leftarrow> sde_paths (euler_update dt dt_sq r vol) eng asian option_payoff S K
                       (NSteps p) NSIM 1 s0;
                Some (Inr (store (p\<lparr>explicit_euler := True\<rparr>) s
                             ((v_price s / Fin (of_nat NSIM)) * dexp (- r * T))))
              }
              else if fdm_model_choice = 3 then do {
                s \<leftarrow> sde_paths (milstein_update dt dt_sq r vol) eng asian option_payoff S K
                       (NSteps p) NSIM 1 s0;
                Some (Inr (store (p\<lparr>explicit_euler := True\<rparr>) s
                             ((v_price s / Fin (of_nat NSIM)) * dexp (- r * T))))
              }
              else Some (Inr (p\<lparr>m_price := Fin 0\<rparr>)))"

text \<open>
  \<^verbatim>\<open>PricerResults\<close> and \<^verbatim>\<open>Pricer::output\<close> (\<open>Pricer_output\<close> here), which also sets the
  member \<^verbatim>\<open>NSteps\<close>.
\<close>

record PricerResults =
  pr_price :: double
  pr_option_data :: OptionData
  pr_NSteps :: nat
  pr_names :: "string list"
  pr_upper_cap :: double
  pr_lower_cap :: double

definition make_results :: "Pricer \<Rightarrow> PricerResults" where
  "make_results p =
     \<lparr>pr_price = m_price p, pr_option_data = option_data p, pr_NSteps = NSteps p,
      pr_names = parameter_names p, pr_upper_cap = upper_cap p, pr_lower_cap = lower_cap p\<rparr>"

definition Pricer_output :: "Pricer \<Rightarrow> PricerResults \<times> Pricer" where
  "Pricer_output p =
     (if explicit_euler p then (make_results p, p)
      else (let p' = p\<lparr>NSteps := 0\<rparr> in (make_results p', p')))"

text \<open>\<^verbatim>\<open>PricerOutputMIS\<close> and \<^verbatim>\<open>Pricer::MIS_output\<close>.\<close>

record PricerOutputMIS =
  mis_price :: double
  mis_option_data :: OptionData
  mis_stock_prices :: "double list"
  mis_option_prices :: "double list"
  mis_names :: "string list"

definition MIS_output :: "Pricer \<Rightarrow> PricerOutputMIS" where
  "MIS_output p =
     \<lparr>mis_price = m_price p, mis_option_data = option_data p,
      mis_stock_prices = stock_flunct p, mis_option_prices = option_prices p,
      mis_names = parameter_names p\<rparr>"

section \<open>MIS: statistics, exact price and decision\<close>

text \<open>
  The statistics members of \<^verbatim>\<open>MIS\<close>. The stopwatch (\<^verbatim>\<open>start\<close>, \<^verbatim>\<open>end\<close>,
  \<^verbatim>\<open>elapsed_time\<close>) is left out: it reads the system clock and no other member depends
  on it.
\<close>

record MIS =
  exact_price :: double
  mean_price :: double
  max_price :: double
  min_price :: double
  SD :: double
  SE :: double
  decision :: bool

text \<open>
  The conversion of a double to \<^verbatim>\<open>int\<close> drops the fraction; it is undefined when the
  result does not fit 32 bits or the double is not finite.
\<close>

fun double_to_int :: "double \<Rightarrow> int option" where
  "double_to_int (Fin a) =
     (let t = (if 0 \<le> a then \<lfloor>a\<rfloor> else \<lceil>a\<rceil>)
      in if - (2 ^ 31) \<le> t \<and> t < 2 ^ 31 then Some t else None)"
| "double_to_int PInf = None"
| "double_to_int NInf = None"
| "double_to_int NaN = None"

text \<open>
  The two \<^verbatim>\<open>std::for_each\<close> loops of \<^verbatim>\<open>ComputeStatistics\<close>. Both lambdas declare their
  parameter as \<^verbatim>\<open>int n\<close>, so every element is converted to \<^verbatim>\<open>int\<close> before it is added.
  The first accumulates \<^verbatim>\<open>sum\<close> (\<open>sum_v\<close> here) and \<^verbatim>\<open>sum_sq\<close>, the second \<^verbatim>\<open>mean_price\<close>.
\<close>

fun for_each_sums :: "double list \<Rightarrow> double \<times> double \<Rightarrow> error + double \<times> double" where
  "for_each_sums [] acc = Inr acc"
| "for_each_sums (x # xs) (sum_v, sum_sq) =
     (case double_to_int x of
        None \<Rightarrow> Inl Undefined_Behaviour
      | Some n \<Rightarrow> for_each_sums xs (sum_v + Fin (of_int n), sum_sq + dpow (Fin (of_int n)) 2))"

fun for_each_mean :: "double list \<Rightarrow> double \<Rightarrow> error + double" where
  "for_each_mean [] acc = Inr acc"
| "for_each_mean (x # xs) acc =
     (case double_to_int x of
        None \<Rightarrow> Inl Undefined_Behaviour
      | Some n \<Rightarrow> for_each_mean xs (acc + Fin (of_int n)))"

text \<open>
  \<^verbatim>\<open>*std::max_element\<close> and \<^verbatim>\<open>*std::min_element\<close>: the first largest and the first
  smallest element under \<^verbatim>\<open><\<close>; on an empty vector the end iterator is dereferenced.
\<close>

fun max_element :: "double list \<Rightarrow> error + double" where
  "max_element [] = Inl Undefined_Behaviour"
| "max_element (x # xs) = Inr (foldl (\<lambda>largest y. if dless largest y then y else largest) x xs)"

fun min_element :: "double list \<Rightarrow> error + double" where
  "min_element [] = Inl Undefined_Behaviour"
| "min_element (x # xs) = Inr (foldl (\<lambda>smallest y. if dless y smallest then y else smallest) x xs)"

text \<open>
  \<^verbatim>\<open>option_prices.size() - 1\<close> is computed in \<^verbatim>\<open>size_t\<close> (64 bits here) and wraps around
  for the empty vector.
\<close>

definition size_minus_one :: "nat \<Rightarrow> nat" where
  "size_minus_one n = (n + 2 ^ 64 - 1) mod 2 ^ 64"

text \<open>\<^verbatim>\<open>MIS::ComputeStatistics\<close>.\<close>

definition ComputeStatistics :: "MIS \<Rightarrow> PricerOutputMIS \<Rightarrow> error + MIS" where
  "ComputeStatistics mis pricer_res =
     (let opt_data = mis_option_data pricer_res;
          stock_prices = mis_stock_prices pricer_res;
          opt_prices = mis_option_prices pricer_res;
          r = od_r opt_data;
          T = od_T opt_data
      in case for_each_sums opt_prices (Fin 0, Fin 0) of
           Inl e \<Rightarrow> Inl e
         | Inr (sum_v, sum_sq) \<Rightarrow>
       (case for_each_mean stock_prices (Fin 0) of
           Inl e \<Rightarrow> Inl e
         | Inr mean_sum \<Rightarrow>
       (let mean_v = mean_sum / Fin (of_nat (length stock_prices));
            SD_v = dsqrt ((sum_sq - (Fin 1 / Fin (of_nat (length opt_prices))) * dpow sum_v 2)
                           / Fin (of_nat (size_minus_one (length opt_prices))))
                     * dexp (- r * T);
            SE_v = SD_v / dsqrt (Fin (of_nat (length opt_prices)))
        in case max_element stock_prices of
             Inl e \<Rightarrow> Inl e
           | Inr max_v \<Rightarrow>
         (case min_element stock_prices of
             Inl e \<Rightarrow> Inl e
           | Inr min_v \<Rightarrow>
               Inr (mis\<lparr>mean_price := mean_v, SD := SD_v, SE := SE_v,
                         max_price := max_v, min_price := min_v\<rparr>)))))"

text \<open>
  The distribution function of the standard normal distribution, as
  \<^verbatim>\<open>boost::math::cdf\<close> computes it: half the complementary error function at
  \<open>- x / sqrt 2\<close>. The error function is its power series. Under the default error policy
  of the library the call throws \<^verbatim>\<open>std::domain_error\<close> for not-a-number; it returns 0
  and 1 at the infinities.
\<close>

definition erf_term :: "real \<Rightarrow> nat \<Rightarrow> real" where
  "erf_term z n = (- 1) ^ n * z ^ (2 * n + 1) / (fact n * of_nat (2 * n + 1))"

definition erf :: "real \<Rightarrow> real" where
  "erf z = 2 / sqrt pi * (\<Sum>n. erf_term z n)"

definition erfc :: "real \<Rightarrow> real" where
  "erfc z = 1 - erf z"

definition std_normal_cdf :: "real \<Rightarrow> real" where
  "std_normal_cdf x = erfc (- (x / sqrt 2)) / 2"

fun cdf :: "double \<Rightarrow> error + double" where
  "cdf (Fin x) = Inr (Fin (std_normal_cdf x))"
| "cdf PInf = Inr (Fin 1)"
| "cdf NInf = Inr (Fin 0)"
| "cdf NaN = Inl Domain_Error"

text \<open>
  \<^verbatim>\<open>MIS::ExactPrice\<close>: the Black-Scholes price of a call when the payoff name ends in
  \<^verbatim>\<open>Call\<close>, of a put otherwise. The two calls of the distribution function may run in
  either order; the price is set when both return, and the exception is the same when one
  of them throws.
\<close>

definition ExactPrice :: "MIS \<Rightarrow> PricerOutputMIS \<Rightarrow> error + MIS" where
  "ExactPrice mis pricer_res =
     (let names = mis_names pricer_res;
          opt_data = mis_option_data pricer_res;
          vol = od_vol opt_data; r = od_r opt_data; T = od_T opt_data;
          S = od_S opt_data; K = od_K opt_data
      in if length names < 3 then Inl Undefined_Behaviour
         else if regex_match_Call (names ! 2) then
           (let d1 = (dlog (S / K) + (r + dpow vol 2 / Fin 2) * T) / (vol * dsqrt T);
                d2 = d1 - vol * dsqrt T
            in case cdf d1 of Inl e \<Rightarrow> Inl e | Inr N1 \<Rightarrow>
              (case cdf d2 of Inl e \<Rightarrow> Inl e | Inr N2 \<Rightarrow>
                 Inr (mis\<lparr>exact_price :=
                        S * dexp ((r - r) * T) * N1 - K * dexp (- r * T) * N2\<rparr>)))
         else
           (let d1 = (dlog (S / K) + (r + dpow vol 2 / Fin 2) * T) / (vol * dsqrt T);
                d2 = d1 - vol * dsqrt T
            in case cdf (- d2) of Inl e \<Rightarrow> Inl e | Inr N2 \<Rightarrow>
              (case cdf (- d1) of Inl e \<Rightarrow> Inl e | Inr N1 \<Rightarrow>
                 Inr (mis\<lparr>exact_price :=
                        K * dexp (- r * T) * N2 - S * dexp ((r - r) * T) * N1\<rparr>))))"

text \<open>\<^verbatim>\<open>MIS::DecisionMaking\<close>.\<close>

definition DecisionMaking :: "MIS \<Rightarrow> PricerOutputMIS \<Rightarrow> MIS" where
  "DecisionMaking mis pricer_res =
     (if dless (dabs (exact_price mis - mis_price pricer_res)) (Fin 0.01)
      then mis\<lparr>decision := True\<rparr>
      else mis\<lparr>decision := False\<rparr>)"

section \<open>Sample inputs\<close>

text \<open>
  A statistics object before its first use, and two results of a pricing run of a put with
  strike 65: one with a single path, one with two paths whose payoffs are 0.5 and 0.7.
\<close>

definition mis0 :: MIS where
  "mis0 = \<lparr>exact_price = Fin 0, mean_price = Fin 0, max_price = Fin 0, min_price = Fin 0,
           SD = Fin 0, SE = Fin 0, decision = False\<rparr>"

definition single_sample :: PricerOutputMIS where
  "single_sample =
     \<lparr>mis_price = Fin 3,
      mis_option_data = \<lparr>od_vol = Fin 0.3, od_r = Fin 0.08, od_T = Fin 0.25, od_S = Fin 60,
                         od_K = Fin 65, od_NSIM = 1\<rparr>,
      mis_stock_prices = [Fin 62], mis_option_prices = [Fin 3],
      mis_names = [''Default Random Engine'', ''GBM'', ''Put'']\<rparr>"

definition two_samples :: PricerOutputMIS where
  "two_samples =
     \<lparr>mis_price = Fin 0.6,
      mis_option_data = \<lparr>od_vol = Fin 0.3, od_r = Fin 0, od_T = Fin 1, od_S = Fin 60,
                         od_K = Fin 65, od_NSIM = 2\<rparr>,
      mis_stock_prices = [Fin 64.5, Fin 64.3], mis_option_prices = [Fin 0.5, Fin 0.7],
      mis_names = [''Default Random Engine'', ''GBM'', ''Put'']\<rparr>"

text \<open>The results of two runs on the same option data, one of a call and one of a put.\<close>

definition call_benchmark :: PricerOutputMIS where
  "call_benchmark =
     \<lparr>mis_price = Fin 2,
      mis_option_data = \<lparr>od_vol = Fin 0.3, od_r = Fin 0.08, od_T = Fin 0.25, od_S = Fin 60,
                         od_K = Fin 65, od_NSIM = 1000\<rparr>,
      mis_stock_prices = [], mis_option_prices = [],
      mis_names = [''Mersenne Twister'', ''Explicit Euler'', ''Call'']\<rparr>"

definition put_benchmark :: PricerOutputMIS where
  "put_benchmark = call_benchmark\<lparr>mis_names := [''Mersenne Twister'', ''Explicit Euler'', ''Put'']\<rparr>"

text \<open>
  Modelled from the spec: the payoff functions of the class \<^verbatim>\<open>Payoff\<close>, whose header is not
  among the sources. A payoff maps the strike and a terminal (or averaged) asset value to
  an undiscounted amount that is never negative: \<open>max (K - V) 0\<close> for a put and
  \<open>max (V - K) 0\<close> for a call. They serve as the payoff of the sample runs below.
\<close>

definition put_payoff :: "double \<Rightarrow> double \<Rightarrow> double" where
  "put_payoff K V = (if dless (Fin 0) (K - V) then K - V else Fin 0)"

definition call_payoff :: "double \<Rightarrow> double \<Rightarrow> double" where
  "call_payoff K V = (if dless (Fin 0) (V - K) then V - K else Fin 0)"

text \<open>
  A stand-in for the library's engines: whatever the seed, the variates of the default
  engine alternate between 1 and -0.5, those of the Mersenne twister are 0.
\<close>

definition sample_lib :: stdlib where
  "sample_lib =
     \<lparr>default_engine_variates = (\<lambda>seed k. if even k then Fin 1 else Fin (- 0.5)),
      mt19937_variates = (\<lambda>seed k. Fin 0),
      default_seed = 1\<rparr>"

text \<open>
  A pricer as \<^verbatim>\<open>get\<close> leaves it for a put priced by the closed form with two paths;
  the same put priced by the Explicit Euler scheme with one path and no time step; and
  a call with an Asian payoff name priced by the Explicit Euler scheme with one path,
  expiry 1 and \<^verbatim>\<open>NSteps = 1\<close>.
\<close>

definition gbm_run :: Pricer where
  "gbm_run =
     \<lparr>mp_rng = DefaultRandomEngine sample_lib, mp_fdm = 1, mp_payoff = put_payoff,
      parameter_names = [''Default Random Engine'', ''GBM'', ''Put''],
      option_data = \<lparr>od_vol = Fin 0.3, od_r = Fin 0.08, od_T = Fin 0.25, od_S = Fin 60,
                     od_K = Fin 65, od_NSIM = 2\<rparr>,
      explicit_euler = False, NSteps = 50, stock_flunct = [], option_prices = [],
      m_price = Fin 0, upper_cap = Fin 0, lower_cap = Fin 0\<rparr>"

definition euler_zero_steps :: Pricer where
  "euler_zero_steps =
     \<lparr>mp_rng = DefaultRandomEngine sample_lib, mp_fdm = 2, mp_payoff = put_payoff,
      parameter_names = [''Default Random Engine'', ''Explicit Euler'', ''Put''],
      option_data = \<lparr>od_vol = Fin 0.3, od_r = Fin 0.08, od_T = Fin 0.25, od_S = Fin 60,
                     od_K = Fin 65, od_NSIM = 1\<rparr>,
      explicit_euler = False, NSteps = 0, stock_flunct = [], option_prices = [],
      m_price = Fin 0, upper_cap = Fin 0, lower_cap = Fin 0\<rparr>"

definition asian_run :: Pricer where
  "asian_run =
     \<lparr>mp_rng = DefaultRandomEngine sample_lib, mp_fdm = 2, mp_payoff = call_payoff,
      parameter_names = [''Default Random Engine'', ''Explicit Euler'', ''Asian Call''],
      option_data = \<lparr>od_vol = Fin 1, od_r = Fin 0, od_T = Fin 1, od_S = Fin 100,
                     od_K = Fin 120, od_NSIM = 1\<rparr>,
      explicit_euler = False, NSteps = 1, stock_flunct = [], option_prices = [],
      m_price = Fin 0, upper_cap = Fin 0, lower_cap = Fin 0\<rparr>"

section \<open>Arithmetic on finite values\<close>

lemma Fin_minus [simp]: "Fin a - Fin b = Fin (a - b)"
  by (simp add: minus_double_def)

lemma times_Fin_one [simp]: "x * Fin 1 = x"
  by (cases x) simp_all

lemma dpow_one [simp]: "dpow x 1 = x"
  by (simp add: dpow_def)

lemma dpow_two [simp]: "dpow x 2 = x * x"
  by (simp add: dpow_def numeral_2_eq_2)

lemma diffusion_Fin [simp]: "diffusion (Fin vol) (Fin S) = Fin (vol * S)"
  by (simp add: diffusion_def)

lemma diffusion_derivative_Fin [simp]:
  "diffusion_derivative (Fin vol) (Fin S) = Fin (0.5 * vol * S)"
  by (simp add: diffusion_derivative_def)

section \<open>The loops return\<close>

text \<open>
  A counter that stays below \<open>2\<^sup>3\<^sup>2\<close> does not wrap around, and then each loop returns
  after the number of passes that its bounds give.
\<close>

lemma counter_step: "i < n \<Longrightarrow> n < 2 ^ 32 \<Longrightarrow> (i + 1) mod 2 ^ 32 = Suc i" for i n :: nat
  by simp

lemma gbm_paths_returns:
  assumes "NSIM < 2 ^ 32" and "i \<le> NSIM"
  shows "gbm_paths eng pay vol T K NSIM i s =
           Some ((gbm_path eng pay vol T K NSIM ^^ (NSIM - i)) s)"
  using assms(2)
proof (induction "NSIM - i" arbitrary: i s)
  case 0
  then show ?case by (subst gbm_paths.simps) simp
next
  case (Suc k)
  then have lt: "i < NSIM" and k: "k = NSIM - Suc i" and le: "Suc i \<le> NSIM" by simp_all
  have "gbm_paths eng pay vol T K NSIM i s =
          gbm_paths eng pay vol T K NSIM (Suc i) (gbm_path eng pay vol T K NSIM s)"
    using lt assms(1) by (subst gbm_paths.simps) (simp add: counter_step)
  also have "\<dots> = Some ((gbm_path eng pay vol T K NSIM ^^ k) (gbm_path eng pay vol T K NSIM s))"
    using Suc.hyps(1) [OF k le] k by simp
  finally show ?case using Suc.hyps(2) [symmetric] by (simp add: funpow_swap1)
qed

lemma time_steps_returns:
  assumes "M < 2 ^ 32 - 1" and "j \<le> Suc M"
  shows "time_steps upd eng asian M j s = Some ((time_step upd eng asian ^^ (Suc M - j)) s)"
  using assms(2)
proof (induction "Suc M - j" arbitrary: j s)
  case 0
  then show ?case by (subst time_steps.simps) simp
next
  case (Suc k)
  then have lt: "j < Suc M" and k: "k = Suc M - Suc j" and le: "Suc j \<le> Suc M" by simp_all
  have "Suc M < 2 ^ 32" using assms(1) by simp
  then have "time_steps upd eng asian M j s =
          time_steps upd eng asian M (Suc j) (time_step upd eng asian s)"
    using lt by (subst time_steps.simps) (simp add: counter_step)
  also have "\<dots> = Some ((time_step upd eng asian ^^ k) (time_step upd eng asian s))"
    using Suc.hyps(1) [OF k le] k by simp
  finally show ?case using Suc.hyps(2) [symmetric] by (simp add: funpow_swap1)
qed

lemma sde_paths_returns:
  assumes "M < 2 ^ 32 - 1" and "NSIM < 2 ^ 32 - 1" and "i \<le> Suc NSIM"
  shows "sde_paths upd eng asian pay S K M NSIM i s =
           Some ((sde_path upd eng asian pay S K M ^^ (Suc NSIM - i)) s)"
  using assms(3)
proof (induction "Suc NSIM - i" arbitrary: i s)
  case 0
  then show ?case by (subst sde_paths.simps) simp
next
  case (Suc k)
  then have lt: "i < Suc NSIM" and k: "k = Suc NSIM - Suc i" and le: "Suc i \<le> Suc NSIM"
    by simp_all
  have "Suc NSIM < 2 ^ 32" using assms(2) by simp
  then have "sde_paths upd eng asian pay S K M NSIM i s =
          sde_paths upd eng asian pay S K M NSIM (Suc i) (sde_path upd eng asian pay S K M s)"
    using lt
    by (subst sde_paths.simps) (simp add: counter_step time_steps_returns [OF assms(1)] sde_path_def)
  also have "\<dots> = Some ((sde_path upd eng asian pay S K M ^^ k) (sde_path upd eng asian pay S K M s))"
    using Suc.hyps(1) [OF k le] k by simp
  finally show ?case using Suc.hyps(2) [symmetric] by (simp add: funpow_swap1)
qed

text \<open>Conversely, a loop that returns had a bound that its counter could pass.\<close>

lemma gbm_paths_some_bound:
  assumes "gbm_paths eng pay vol T K NSIM i s = Some y" and "i < 2 ^ 32"
  shows "NSIM < 2 ^ 32"
proof -
  have "i < 2 ^ 32 \<longrightarrow> NSIM < 2 ^ 32"
  proof (rule gbm_paths.raw_induct
      [where P = "\<lambda>eng pay vol T K N i s y. i < 2 ^ 32 \<longrightarrow> N < 2 ^ 32", OF _ assms(1)])
    fix f :: "(nat \<Rightarrow> double) \<Rightarrow> (double \<Rightarrow> double \<Rightarrow> double) \<Rightarrow> double \<Rightarrow> double \<Rightarrow> double \<Rightarrow> nat \<Rightarrow> nat \<Rightarrow> sim \<Rightarrow> sim option"
    fix eng pay vol T K and N i :: nat and s y
    assume IH: "\<And>eng pay vol T K N i s y. f eng pay vol T K N i s = Some y \<Longrightarrow> i < 2 ^ 32 \<longrightarrow> N < 2 ^ 32"
      and eq: "(if i < N then f eng pay vol T K N ((i + 1) mod 2 ^ 32) (gbm_path eng pay vol T K N s)
                else Some s) = Some y"
    show "i < 2 ^ 32 \<longrightarrow> N < 2 ^ 32"
    proof (cases "i < N")
      case True
      with eq have "f eng pay vol T K N ((i + 1) mod 2 ^ 32) (gbm_path eng pay vol T K N s) = Some y"
        by simp
      from IH [OF this] show ?thesis by simp
    next
      case False
      then show ?thesis by simp
    qed
  qed
  with assms(2) show ?thesis by simp
qed

lemma time_steps_some_bound:
  assumes "time_steps upd eng asian M j s = Some y" and "j < 2 ^ 32"
  shows "M < 2 ^ 32 - 1"
proof -
  have "j < 2 ^ 32 \<longrightarrow> M < 2 ^ 32 - 1"
  proof (rule time_steps.raw_induct
      [where P = "\<lambda>upd eng asian M j s y. j < 2 ^ 32 \<longrightarrow> M < 2 ^ 32 - 1", OF _ assms(1)])
    fix f :: "(double \<Rightarrow> double \<Rightarrow> double) \<Rightarrow> (nat \<Rightarrow> double) \<Rightarrow> bool \<Rightarrow> nat \<Rightarrow> nat \<Rightarrow> sim \<Rightarrow> sim option"
    fix upd eng asian and M j :: nat and s y
    assume IH: "\<And>upd eng asian M j s y. f upd eng asian M j s = Some y \<Longrightarrow> j < 2 ^ 32 \<longrightarrow> M < 2 ^ 32 - 1"
      and eq: "(if j \<le> M then f upd eng asian M ((j + 1) mod 2 ^ 32) (time_step upd eng asian s)
                else Some s) = Some y"
    show "j < 2 ^ 32 \<longrightarrow> M < 2 ^ 32 - 1"
    proof (cases "j \<le> M")
      case True
      with eq have "f upd eng asian M ((j + 1) mod 2 ^ 32) (time_step upd eng asian s) = Some y"
        by simp
      from IH [OF this] show ?thesis by simp
    next
      case False
      then show ?thesis by auto
    qed
  qed
  with assms(2) show ?thesis by simp
qed

lemma sde_paths_some_bound:
  assumes "sde_paths upd eng asian pay S K M NSIM i s = Some y" and "i < 2 ^ 32"
  shows "NSIM < 2 ^ 32 - 1"
proof -
  have "i < 2 ^ 32 \<longrightarrow> NSIM < 2 ^ 32 - 1"
  proof (rule sde_paths.raw_induct
      [where P = "\<lambda>upd eng asian pay S K M N i s y. i < 2 ^ 32 \<longrightarrow> N < 2 ^ 32 - 1", OF _ assms(1)])
    fix f :: "(double \<Rightarrow> double \<Rightarrow> double) \<Rightarrow> (nat \<Rightarrow> double) \<Rightarrow> bool \<Rightarrow> (double \<Rightarrow> double \<Rightarrow> double) \<Rightarrow> double \<Rightarrow> double
     \<Rightarrow> nat \<Rightarrow> nat \<Rightarrow> nat \<Rightarrow> sim \<Rightarrow> sim option"
    fix upd eng asian pay S K and M N i :: nat and s y
    assume IH: "\<And>upd eng asian pay S K M N i s y. f upd eng asian pay S K M N i s = Some y
                  \<Longrightarrow> i < 2 ^ 32 \<longrightarrow> N < 2 ^ 32 - 1"
      and eq: "(if i \<le> N
                then time_steps upd eng asian M 0 (s\<lparr>v_VOld := S\<rparr>) \<bind>
                       (\<lambda>s'. f upd eng asian pay S K M N ((i + 1) mod 2 ^ 32) (path_end asian pay K M s'))
                else Some s) = Some y"
    show "i < 2 ^ 32 \<longrightarrow> N < 2 ^ 32 - 1"
    proof (cases "i \<le> N")
      case True
      with eq obtain s' where
        "f upd eng asian pay S K M N ((i + 1) mod 2 ^ 32) (path_end asian pay K M s') = Some y"
        by (auto split: bind_splits)
      from IH [OF this] show ?thesis by simp
    next
      case False
      then show ?thesis by auto
    qed
  qed
  with assms(2) show ?thesis by simp
qed

lemma sde_paths_some_steps:
  assumes "sde_paths upd eng asian pay S K M NSIM 1 s = Some y" and "0 < NSIM"
  shows "M < 2 ^ 32 - 1"
proof -
  from assms obtain s' where "time_steps upd eng asian M 0 (s\<lparr>v_VOld := S\<rparr>) = Some s'"
    by (subst (asm) sde_paths.simps) (auto split: if_splits bind_splits)
  then show ?thesis using time_steps_some_bound by fastforce
qed

lemma sde_paths_no_path: "sde_paths upd eng asian pay S K M 0 (Suc 0) s = Some s"
  by (subst sde_paths.simps) simp

section \<open>The state after the loops\<close>

lemma asian_indicator_False [simp]: "asian_indicator name = False"
  by (simp add: asian_indicator_def)

lemma gbm_path_iterate:
  "v_VOld ((gbm_path eng pay vol T K N ^^ n) s) = v_VOld s
   \<and> v_drawn ((gbm_path eng pay vol T K N ^^ n) s) = v_drawn s + n
   \<and> v_stock_flunct ((gbm_path eng pay vol T K N ^^ n) s) =
       v_stock_flunct s
         @ map (\<lambda>k. v_VOld s * dexp (dsqrt (vol * vol * T) * eng (v_drawn s + k))) [0..<n]
   \<and> v_option_prices ((gbm_path eng pay vol T K N ^^ n) s) =
       v_option_prices s
         @ map (\<lambda>k. pay K (v_VOld s * dexp (dsqrt (vol * vol * T) * eng (v_drawn s + k)))) [0..<n]"
  by (induction n) (simp_all add: gbm_path_def Let_def)

lemma time_step_iterate:
  "v_stock_flunct ((time_step upd eng asian ^^ n) s) = v_stock_flunct s
   \<and> v_option_prices ((time_step upd eng asian ^^ n) s) = v_option_prices s
   \<and> v_drawn ((time_step upd eng asian ^^ n) s) = v_drawn s + n"
  by (induction n) (simp_all add: time_step_def Let_def)

lemma sde_path_fields:
  "v_stock_flunct (sde_path upd eng False pay S K M s) =
     v_stock_flunct s @ [v_VNew ((time_step upd eng False ^^ Suc M) (s\<lparr>v_VOld := S\<rparr>))]
   \<and> v_option_prices (sde_path upd eng False pay S K M s) =
     v_option_prices s @ [pay K (v_VNew ((time_step upd eng False ^^ Suc M) (s\<lparr>v_VOld := S\<rparr>)))]
   \<and> v_drawn (sde_path upd eng False pay S K M s) = v_drawn s + Suc M"
  using time_step_iterate [where upd = upd and eng = eng and asian = False and n = "Suc M" and s = "s\<lparr>v_VOld := S\<rparr>"]
  by (simp add: sde_path_def path_end_def Let_def del: funpow.simps)

lemma sde_path_iterate_pairs:
  assumes "v_option_prices s = map (pay K) (v_stock_flunct s)"
  shows "v_option_prices ((sde_path upd eng False pay S K M ^^ n) s) =
           map (pay K) (v_stock_flunct ((sde_path upd eng False pay S K M ^^ n) s))
         \<and> length (v_stock_flunct ((sde_path upd eng False pay S K M ^^ n) s)) =
           length (v_stock_flunct s) + n"
  using assms by (induction n) (simp_all add: sde_path_fields)

lemma gbm_path_iterate_pairs:
  assumes "v_option_prices s = map (pay K) (v_stock_flunct s)"
  shows "v_option_prices ((gbm_path eng pay vol T K N ^^ n) s) =
           map (pay K) (v_stock_flunct ((gbm_path eng pay vol T K N ^^ n) s))
         \<and> length (v_stock_flunct ((gbm_path eng pay vol T K N ^^ n) s)) =
           length (v_stock_flunct s) + n"
  using assms by (simp add: gbm_path_iterate)

lemma sde_path_single_step:
  "v_stock_flunct ((sde_path upd eng False pay S K 0 ^^ n) s) =
     v_stock_flunct s @ map (\<lambda>k. upd S (eng (v_drawn s + k))) [0..<n]
   \<and> v_drawn ((sde_path upd eng False pay S K 0 ^^ n) s) = v_drawn s + n"
  by (induction n) (simp_all add: sde_path_fields time_step_def Let_def)


lemma gbm_terminal_value:
  assumes "0 \<le> sigma" and "0 \<le> T"
  shows "\<not> sigma * sigma * T < 0"
    and "GBM (Fin S) (Fin T) (Fin sigma) (Fin r) * Fin (exp (sqrt (sigma * sigma * T) * z))
           = Fin (S * exp ((r - sigma\<^sup>2 / 2) * T + sigma * sqrt T * z))"
proof -
  show "\<not> sigma * sigma * T < 0"
    using assms by (simp add: not_less)
  have root: "sqrt (sigma * sigma * T) = sigma * sqrt T"
    using assms by (simp add: real_sqrt_mult)
  have "T * (r - 0.5 * sigma * sigma) + sigma * sqrt T * z = (r - sigma\<^sup>2 / 2) * T + sigma * sqrt T * z"
    by (simp add: power2_eq_square algebra_simps)
  then have "exp (T * (r - 0.5 * sigma * sigma)) * exp (sigma * sqrt T * z)
               = exp ((r - sigma\<^sup>2 / 2) * T + sigma * sqrt T * z)"
    by (simp add: exp_add [symmetric] del: exp_add)
  then show "GBM (Fin S) (Fin T) (Fin sigma) (Fin r) * Fin (exp (sqrt (sigma * sigma * T) * z))
           = Fin (S * exp ((r - sigma\<^sup>2 / 2) * T + sigma * sqrt T * z))"
    using root by (simp add: GBM_def mult.assoc)
qed

section \<open>The closed-form scheme\<close>

text \<open>
  Claim C1. Take a pricer with scheme choice 1, three parameter names, finite option data
  with \<open>sigma \<ge> 0\<close> and \<open>T \<ge> 0\<close>, fewer than \<open>2\<^sup>3\<^sup>2\<close> paths, finite variates \<open>Z k\<close>, and
  the time-discretization flag still at its initial value. Then \<^verbatim>\<open>GeneralPricer\<close>
  returns, the \<open>k\<close>-th asset value it appends is
  \<open>S * exp ((r - sigma\<^sup>2 / 2) * T + sigma * sqrt T * Z k)\<close>, computed from the one variate
  \<open>Z k\<close> with no step in between, and \<^verbatim>\<open>output\<close> reports \<open>NSteps = 0\<close>.
\<close>

theorem GeneralPricer_GBM_terminal_value:
  assumes "mp_fdm p = 1" and "3 \<le> length (parameter_names p)"
    and "option_data p = \<lparr>od_vol = Fin sigma, od_r = Fin r, od_T = Fin T, od_S = Fin S,
                           od_K = K, od_NSIM = n\<rparr>"
    and "0 \<le> sigma" and "0 \<le> T" and "n < 2 ^ 32"
    and "\<And>k. local_engine lib (parameter_names p) k = Fin (Z k)"
    and "\<not> explicit_euler p"
  shows "\<exists>p'. GeneralPricer lib p = Some (Inr p')
           \<and> stock_flunct p' =
               stock_flunct p
                 @ map (\<lambda>k. Fin (S * exp ((r - sigma\<^sup>2 / 2) * T + sigma * sqrt T * Z k))) [0..<n]
           \<and> pr_NSteps (fst (Pricer_output p')) = 0"
  using assms(1-3,6-8) gbm_terminal_value [OF assms(4,5)]
  by (simp add: GeneralPricer_def Let_def gbm_paths_returns gbm_path_iterate store_def
      Pricer_output_def make_results_def)

theorem GeneralPricer_GBM_terminal_value_witness:
  "mp_fdm gbm_run = 1 \<and> 3 \<le> length (parameter_names gbm_run)
   \<and> option_data gbm_run = \<lparr>od_vol = Fin 0.3, od_r = Fin 0.08, od_T = Fin 0.25, od_S = Fin 60,
                               od_K = Fin 65, od_NSIM = 2\<rparr>
   \<and> (0::real) \<le> 0.3 \<and> (0::real) \<le> 0.25 \<and> (2::nat) < 2 ^ 32
   \<and> \<not> explicit_euler gbm_run
   \<and> (\<exists>p'. GeneralPricer sample_lib gbm_run = Some (Inr p')
           \<and> stock_flunct p' =
               [Fin (60 * exp ((0.08 - 0.3\<^sup>2 / 2) * 0.25 + 0.3 * sqrt 0.25 * 1)),
                Fin (60 * exp ((0.08 - 0.3\<^sup>2 / 2) * 0.25 + 0.3 * sqrt 0.25 * (- 0.5)))]
           \<and> pr_NSteps (fst (Pricer_output p')) = 0)"
proof -
  have eng: "\<And>k. local_engine sample_lib (parameter_names gbm_run) k
               = Fin ((\<lambda>k. if even k then 1 else - 0.5) k)"
    by (simp add: local_engine_def sample_lib_def gbm_run_def)
  have "[0..<2] = [0, Suc 0]"
    by (simp add: upt_rec)
  then show ?thesis
    using GeneralPricer_GBM_terminal_value
      [of gbm_run "0.3" "0.08" "0.25" 60 "Fin 65" 2 sample_lib "\<lambda>k. if even k then 1 else - 0.5", OF _ _ _ _ _ _ eng]
    by (simp add: gbm_run_def)
qed

section \<open>One sample pair per path\<close>

lemma GeneralPricer_returns_pairs:
  assumes "mp_fdm p = 1 \<or> mp_fdm p = 2 \<or> mp_fdm p = 3"
    and "stock_flunct p = []" and "option_prices p = []"
    and "3 \<le> length (parameter_names p)"
    and "od_NSIM (option_data p) < 2 ^ 32 - 1"
    and "mp_fdm p = 1 \<or> NSteps p < 2 ^ 32 - 1"
  shows "\<exists>p'. GeneralPricer lib p = Some (Inr p')
           \<and> length (stock_flunct p') = od_NSIM (option_data p)
           \<and> option_prices p' = map (mp_payoff p (od_K (option_data p))) (stock_flunct p')"
proof (cases "mp_fdm p = 1")
  case True
  from assms(5) have "od_NSIM (option_data p) < 2 ^ 32" by simp
  with True assms(2-4) show ?thesis
    by (simp add: GeneralPricer_def Let_def gbm_paths_returns gbm_path_iterate_pairs store_def)
next
  case False
  with assms(6) have M: "NSteps p < 2 ^ 32 - 1" by simp
  from False assms(1) have "mp_fdm p = 2 \<or> mp_fdm p = 3" by simp
  then show ?thesis
    using assms(2-5) M
    by (auto simp add: GeneralPricer_def Let_def sde_paths_returns sde_path_iterate_pairs store_def)
qed

lemma GeneralPricer_returns_bounds:
  assumes "GeneralPricer lib p = Some (Inr p')"
    and "mp_fdm p = 1 \<or> mp_fdm p = 2 \<or> mp_fdm p = 3"
    and "3 \<le> length (parameter_names p)"
  shows "od_NSIM (option_data p) < 2 ^ 32
         \<and> (mp_fdm p = 1 \<or> (od_NSIM (option_data p) < 2 ^ 32 - 1
                \<and> (od_NSIM (option_data p) = 0 \<or> NSteps p < 2 ^ 32 - 1)))"
proof (cases "mp_fdm p = 1")
  case True
  with assms(1,3) obtain s where
    "gbm_paths (local_engine lib (parameter_names p)) (mp_payoff p) (od_vol (option_data p))
       (od_T (option_data p)) (od_K (option_data p)) (od_NSIM (option_data p)) 0
       \<lparr>v_VOld = GBM (od_S (option_data p)) (od_T (option_data p)) (od_vol (option_data p))
                  (od_r (option_data p)),
        v_VNew = NaN, v_price = Fin 0, v_average_price = Fin 0, v_drawn = 0,
        v_stock_flunct = stock_flunct p, v_option_prices = option_prices p\<rparr> = Some s"
    by (auto simp add: GeneralPricer_def Let_def split: bind_splits)
  from gbm_paths_some_bound [OF this] True show ?thesis by simp
next
  case False
  with assms(2) have fdm: "mp_fdm p = 2 \<or> mp_fdm p = 3" by simp
  with assms(1,3) obtain upd s where run:
    "sde_paths upd (local_engine lib (parameter_names p)) False (mp_payoff p)
       (od_S (option_data p)) (od_K (option_data p)) (NSteps p) (od_NSIM (option_data p)) 1
       \<lparr>v_VOld = NaN, v_VNew = NaN, v_price = Fin 0, v_average_price = Fin 0, v_drawn = 0,
        v_stock_flunct = stock_flunct p, v_option_prices = option_prices p\<rparr> = Some s"
    by (auto simp add: GeneralPricer_def Let_def split: bind_splits)
  from sde_paths_some_bound [OF run] have N: "od_NSIM (option_data p) < 2 ^ 32 - 1" by simp
  moreover have "od_NSIM (option_data p) = 0 \<or> NSteps p < 2 ^ 32 - 1"
    using sde_paths_some_steps [OF run] by auto
  ultimately show ?thesis by simp
qed

text \<open>
  Claim C10. Take a pricer with scheme choice 1, 2 or 3, three parameter names and empty
  sample vectors. Whenever \<^verbatim>\<open>GeneralPricer\<close> returns, both vectors hold exactly \<open>NSIM\<close>
  elements and the \<open>i\<close>-th payoff is the payoff function at the strike and the \<open>i\<close>-th
  recorded asset value. It does return when \<open>NSIM\<close> is below \<open>2\<^sup>3\<^sup>2 - 1\<close> and, for a
  time-discretized scheme, \<open>NSteps\<close> is too.
\<close>

theorem GeneralPricer_one_pair_per_path:
  assumes "mp_fdm p = 1 \<or> mp_fdm p = 2 \<or> mp_fdm p = 3"
    and "stock_flunct p = []" and "option_prices p = []"
    and "3 \<le> length (parameter_names p)"
  shows "(\<forall>p'. GeneralPricer lib p = Some (Inr p') \<longrightarrow>
            length (stock_flunct p') = od_NSIM (option_data p)
            \<and> length (option_prices p') = od_NSIM (option_data p)
            \<and> (\<forall>i < od_NSIM (option_data p).
                  option_prices p' ! i = mp_payoff p (od_K (option_data p)) (stock_flunct p' ! i)))
         \<and> (od_NSIM (option_data p) < 2 ^ 32 - 1 \<and> (mp_fdm p = 1 \<or> NSteps p < 2 ^ 32 - 1) \<longrightarrow>
              (\<exists>p'. GeneralPricer lib p = Some (Inr p')))"
proof (intro conjI allI impI)
  fix p'
  assume run: "GeneralPricer lib p = Some (Inr p')"
  have pairs: "length (stock_flunct p') = od_NSIM (option_data p)
               \<and> option_prices p' = map (mp_payoff p (od_K (option_data p))) (stock_flunct p')"
  proof (cases "mp_fdm p = 1")
    case True
    from GeneralPricer_returns_bounds [OF run assms(1,4)]
    have "od_NSIM (option_data p) < 2 ^ 32" by simp
    with True assms(2-4) run show ?thesis
      by (auto simp add: GeneralPricer_def Let_def gbm_paths_returns gbm_path_iterate_pairs store_def)
  next
    case False
    with GeneralPricer_returns_bounds [OF run assms(1,4)]
    have N: "od_NSIM (option_data p) < 2 ^ 32 - 1"
      and M: "od_NSIM (option_data p) = 0 \<or> NSteps p < 2 ^ 32 - 1" by simp_all
    from False assms(1) have fdm: "mp_fdm p = 2 \<or> mp_fdm p = 3" by simp
    show ?thesis
    proof (cases "od_NSIM (option_data p) = 0")
      case True
      with fdm assms(2-4) run show ?thesis
        by (auto simp add: GeneralPricer_def Let_def sde_paths_no_path store_def)
    next
      case False
      with M have "NSteps p < 2 ^ 32 - 1" by simp
      with GeneralPricer_returns_pairs [OF assms(1-4) N, of lib] run show ?thesis by auto
    qed
  qed
  then show "length (stock_flunct p') = od_NSIM (option_data p)" by simp
  from pairs show "length (option_prices p') = od_NSIM (option_data p)" by simp
  fix i
  assume "i < od_NSIM (option_data p)"
  with pairs show "option_prices p' ! i = mp_payoff p (od_K (option_data p)) (stock_flunct p' ! i)"
    by simp
next
  assume "od_NSIM (option_data p) < 2 ^ 32 - 1 \<and> (mp_fdm p = 1 \<or> NSteps p < 2 ^ 32 - 1)"
  with GeneralPricer_returns_pairs [OF assms(1-4), of lib]
  show "\<exists>p'. GeneralPricer lib p = Some (Inr p')" by blast
qed

theorem GeneralPricer_one_pair_per_path_witness:
  "(mp_fdm asian_run = 1 \<or> mp_fdm asian_run = 2 \<or> mp_fdm asian_run = 3)
   \<and> stock_flunct asian_run = [] \<and> option_prices asian_run = []
   \<and> 3 \<le> length (parameter_names asian_run)
   \<and> od_NSIM (option_data asian_run) < 2 ^ 32 - 1 \<and> NSteps asian_run < 2 ^ 32 - 1
   \<and> (\<exists>p'. GeneralPricer sample_lib asian_run = Some (Inr p')
           \<and> length (stock_flunct p') = 1 \<and> length (option_prices p') = 1
           \<and> option_prices p' ! 0 = call_payoff (Fin 120) (stock_flunct p' ! 0))"
  using GeneralPricer_one_pair_per_path [of asian_run sample_lib]
  by (auto simp add: asian_run_def)

section \<open>A step count of zero\<close>

text \<open>
  Claim C5, as the code has it. \<^verbatim>\<open>GeneralPricer\<close> does not check \<^verbatim>\<open>NSteps\<close>. For scheme
  choice 2 or 3 with \<open>NSteps = 0\<close>, three parameter names and fewer than \<open>2\<^sup>3\<^sup>2 - 1\<close>
  paths, it computes \<open>dt = T / 0\<close>, which is infinite or not-a-number and raises nothing,
  runs the path loop with one time step per path, and returns with one new asset value
  per path: the update of the scheme applied to the spot price with that \<open>dt\<close>.
\<close>

theorem GeneralPricer_zero_steps:
  assumes "mp_fdm p = 2 \<or> mp_fdm p = 3" and "NSteps p = 0"
    and "3 \<le> length (parameter_names p)" and "od_NSIM (option_data p) < 2 ^ 32 - 1"
  shows "\<exists>p'. GeneralPricer lib p = Some (Inr p')
           \<and> stock_flunct p' =
               stock_flunct p
                 @ map (\<lambda>k. (if mp_fdm p = 2 then euler_update else milstein_update)
                               (od_T (option_data p) / Fin 0) (dsqrt (od_T (option_data p) / Fin 0))
                               (od_r (option_data p)) (od_vol (option_data p))
                               (od_S (option_data p))
                               (local_engine lib (parameter_names p) k))
                     [0..<od_NSIM (option_data p)]
           \<and> (\<forall>t. od_T (option_data p) / Fin 0 \<noteq> Fin t)"
proof -
  have "od_T (option_data p) / Fin 0 \<noteq> Fin t" for t
    by (cases "od_T (option_data p)") simp_all
  then show ?thesis
    using assms
    by (auto simp add: GeneralPricer_def Let_def sde_paths_returns sde_path_single_step store_def)
qed

theorem GeneralPricer_zero_steps_witness:
  "(mp_fdm euler_zero_steps = 2 \<or> mp_fdm euler_zero_steps = 3) \<and> NSteps euler_zero_steps = 0
   \<and> 3 \<le> length (parameter_names euler_zero_steps)
   \<and> od_NSIM (option_data euler_zero_steps) < 2 ^ 32 - 1
   \<and> (\<exists>p'. GeneralPricer sample_lib euler_zero_steps = Some (Inr p') \<and> stock_flunct p' = [PInf])"
proof -
  have "[0..<1] = [0]"
    by (simp add: upt_rec)
  then show ?thesis
    using GeneralPricer_zero_steps [of euler_zero_steps sample_lib]
    by (simp add: euler_zero_steps_def local_engine_def sample_lib_def euler_update_def drift_def)
qed

text \<open>
  The configuration is not rejected: the Explicit Euler run with one path and
  \<open>NSteps = 0\<close> returns, and its one asset value is plus infinity.
\<close>

theorem GeneralPricer_zero_steps_counterexample:
  "GeneralPricer sample_lib euler_zero_steps =
     Some (Inr (euler_zero_steps\<lparr>explicit_euler := True, stock_flunct := [PInf],
                                 option_prices := [Fin 0], m_price := Fin 0\<rparr>))"
  by (simp add: GeneralPricer_def Let_def euler_zero_steps_def sde_paths.simps time_steps.simps
      time_step_def path_end_def store_def local_engine_def sample_lib_def euler_update_def
      drift_def put_payoff_def minus_double_def)

section \<open>The Asian indicator\<close>

text \<open>
  Claim C6 does not hold of the code. For the payoff name \<^verbatim>\<open>Asian Call\<close>, which matches
  the Asian pattern, and the Explicit Euler scheme with \<open>NSteps = 1\<close>, the path visits 200
  and ends at 100. The payoff recorded is the call payoff at the terminal value 100, which
  is 0 at strike 120; at the mean 150 of the two values it is 30.
\<close>

theorem GeneralPricer_asian_uses_terminal_value:
  "regex_match_Asian (parameter_names asian_run ! 2)
   \<and> GeneralPricer sample_lib asian_run =
       Some (Inr (asian_run\<lparr>explicit_euler := True, stock_flunct := [Fin 100],
                             option_prices := [Fin 0], m_price := Fin 0\<rparr>))
   \<and> call_payoff (Fin 120) (Fin ((200 + 100) / 2)) = Fin 30"
  by (simp add: GeneralPricer_def Let_def asian_run_def sde_paths.simps time_steps.simps
      time_step_def path_end_def store_def local_engine_def sample_lib_def euler_update_def
      drift_def call_payoff_def regex_match_Asian_def line_terminator_def)

section \<open>The engine of the simulation\<close>

text \<open>
  Claim C9 does not hold of the code. \<^verbatim>\<open>GeneralPricer\<close> has no clock reading among its
  inputs. The generator that was selected, which is where the clock seeds an engine, can
  be replaced by any other without a change in the price, the samples or the names that
  the run hands on; and the variates of the run are those of the engine with the default
  seed, or of the Mersenne twister with seed 0.
\<close>

theorem GeneralPricer_ignores_selected_generator:
  "map_option (map_sum id MIS_output) (GeneralPricer lib (p\<lparr>mp_rng := g\<rparr>))
     = map_option (map_sum id MIS_output) (GeneralPricer lib p)
   \<and> (local_engine lib names = mt19937_variates lib 0
        \<or> local_engine lib names = default_engine_variates lib (default_seed lib))"
proof
  show "map_option (map_sum id MIS_output) (GeneralPricer lib (p\<lparr>mp_rng := g\<rparr>))
          = map_option (map_sum id MIS_output) (GeneralPricer lib p)"
    by (simp add: GeneralPricer_def Let_def store_def MIS_output_def map_option_bind comp_def)
  show "local_engine lib names = mt19937_variates lib 0
          \<or> local_engine lib names = default_engine_variates lib (default_seed lib)"
    by (simp add: local_engine_def)
qed

section \<open>The Milstein step\<close>

text \<open>
  The Milstein assignment is the Euler assignment plus
  \<open>0.5 * diffusion * diffusion_derivative * ((dt_sq * Normal)\<^sup>2 - dt)\<close>.
\<close>

lemma milstein_update_euler:
  "milstein_update dt dt_sq r vol VOld Normal =
     euler_update dt dt_sq r vol VOld Normal
       + Fin 0.5 * diffusion vol VOld * diffusion_derivative vol VOld
           * (dpow (dt_sq * Normal) 2 - dt)"
  by (simp add: milstein_update_def euler_update_def)

text \<open>
  Claim C7 does not hold of the code. \<^verbatim>\<open>diffusion_derivative\<close> is documented as the
  derivative (sigma prime) of \<^verbatim>\<open>diffusion\<close>, which is \<open>vol * S\<close> under the fixed exponent,
  so the derivative does not depend on the asset value. The function raises the asset
  value to \<open>2 * betaCEV - 1 = 1\<close> instead: at \<open>sigma = 1\<close> it returns 1 for \<open>V = 2\<close>, where
  \<open>0.5 * sigma * V\<^sup>0\<close> is one half, and 2 for \<open>V = 4\<close>.
\<close>

theorem diffusion_derivative_depends_on_value:
  "diffusion_derivative (Fin 1) (Fin 2) = Fin 1
   \<and> Fin 1 \<noteq> Fin (0.5 * 1 * 2 ^ 0)
   \<and> diffusion_derivative (Fin 1) (Fin 4) = Fin 2"
  by simp

section \<open>The decision\<close>

text \<open>
  Claim C3. For a benchmark price \<open>b\<close> and an estimated price \<open>p\<close> the decision is true
  exactly when \<open>\<bar>b - p\<bar> < 0.01\<close>; at a distance of exactly 0.01, on either side, it is
  false.
\<close>

theorem DecisionMaking_strict:
  "decision (DecisionMaking (mis\<lparr>exact_price := Fin b\<rparr>) (pricer_res\<lparr>mis_price := Fin p\<rparr>))
     = (\<bar>b - p\<bar> < 0.01)
   \<and> decision (DecisionMaking (mis\<lparr>exact_price := Fin (p + 0.01)\<rparr>)
                 (pricer_res\<lparr>mis_price := Fin p\<rparr>)) = False
   \<and> decision (DecisionMaking (mis\<lparr>exact_price := Fin (p - 0.01)\<rparr>)
                 (pricer_res\<lparr>mis_price := Fin p\<rparr>)) = False"
  by (simp add: DecisionMaking_def)

section \<open>The statistics\<close>

text \<open>
  Claim C4, as the code has it. \<^verbatim>\<open>ComputeStatistics\<close> has no guard for a single sample.
  When the one payoff and the one asset value convert to \<^verbatim>\<open>int\<close>, the call returns
  normally: the numerator of the variance is zero, the divisor \<open>size - 1\<close> is zero, and
  the standard deviation and the standard error are both not-a-number.
\<close>

theorem ComputeStatistics_single_sample:
  assumes "mis_option_prices pricer_res = [x]" and "double_to_int x = Some n"
    and "mis_stock_prices pricer_res = [y]" and "double_to_int y = Some m"
  shows "\<exists>mis'. ComputeStatistics mis pricer_res = Inr mis' \<and> SD mis' = NaN \<and> SE mis' = NaN"
  using assms by (simp add: ComputeStatistics_def size_minus_one_def)

theorem ComputeStatistics_single_sample_witness:
  "mis_option_prices single_sample = [Fin 3] \<and> double_to_int (Fin 3) = Some 3
   \<and> mis_stock_prices single_sample = [Fin 62] \<and> double_to_int (Fin 62) = Some 62
   \<and> (\<exists>mis'. ComputeStatistics mis0 single_sample = Inr mis' \<and> SD mis' = NaN \<and> SE mis' = NaN)"
  using ComputeStatistics_single_sample [of single_sample "Fin 3" 3 "Fin 62" 62 mis0]
  by (simp add: single_sample_def)

text \<open>
  No failure is reported for one sample: the run with a single path of payoff 3 yields a
  statistics record.
\<close>

theorem ComputeStatistics_single_sample_counterexample:
  "ComputeStatistics mis0 single_sample =
     Inr (mis0\<lparr>mean_price := Fin 62, SD := NaN, SE := NaN,
               max_price := Fin 62, min_price := Fin 62\<rparr>)"
  by (simp add: ComputeStatistics_def single_sample_def size_minus_one_def)

text \<open>
  Claim C2 does not hold of the code. The lambda that sums the payoffs takes its argument
  as \<^verbatim>\<open>int\<close>, so the fractions of the payoffs are dropped before they are added. For the
  payoffs 0.5 and 0.7 (rate 0, expiry 1) the standard deviation is computed from 0 and 0
  and is 0, while the formula over the payoffs gives the square root of 0.02. The mean
  asset value is cut the same way: 64 for the values 64.5 and 64.3.
\<close>

theorem ComputeStatistics_truncates:
  "ComputeStatistics mis0 two_samples =
     Inr (mis0\<lparr>mean_price := Fin 64, SD := Fin 0, SE := Fin 0,
               max_price := Fin 64.5, min_price := Fin 64.3\<rparr>)
   \<and> Fin 0 \<noteq> Fin (sqrt ((((0.5)\<^sup>2 + (0.7)\<^sup>2) - (0.5 + 0.7)\<^sup>2 / 2) / (2 - 1)) * exp (- 0 * 1))"
  by (simp add: ComputeStatistics_def two_samples_def size_minus_one_def power2_eq_square Let_def)

section \<open>The exact price\<close>

text \<open>The power series of the error function converges, and the function is odd.\<close>

lemma erf_term_minus: "erf_term (- z) n = - erf_term z n"
  by (simp add: erf_term_def)

lemma erf_term_bound: "norm (erf_term z n) \<le> \<bar>z\<bar> * (inverse (fact n) * (z\<^sup>2) ^ n)"
proof -
  have "norm (erf_term z n) = \<bar>z\<bar> * (\<bar>z\<bar> ^ (2 * n)) / (fact n * of_nat (2 * n + 1))"
    by (simp add: erf_term_def power_abs abs_mult)
  also have "\<dots> \<le> \<bar>z\<bar> * (\<bar>z\<bar> ^ (2 * n)) / (fact n * 1)"
    by (intro divide_left_mono mult_left_mono) auto
  also have "\<dots> = \<bar>z\<bar> * (inverse (fact n) * (z\<^sup>2) ^ n)"
  proof -
    have "\<bar>z\<bar> ^ (2 * n) = (z\<^sup>2) ^ n"
      by (simp add: power_mult)
    then show ?thesis by (simp add: field_simps)
  qed
  finally show ?thesis .
qed

lemma summable_erf_term: "summable (erf_term z)"
proof (rule summable_comparison_test)
  show "\<exists>N. \<forall>n\<ge>N. norm (erf_term z n) \<le> \<bar>z\<bar> * (inverse (fact n) * (z\<^sup>2) ^ n)"
    using erf_term_bound by blast
  show "summable (\<lambda>n. \<bar>z\<bar> * (inverse (fact n) * (z\<^sup>2) ^ n))"
    by (intro summable_mult summable_exp)
qed

lemma erf_minus: "erf (- z) = - erf z"
  using suminf_minus [OF summable_erf_term, of z]
  by (simp add: erf_def erf_term_minus)

lemma std_normal_cdf_symmetric: "std_normal_cdf x + std_normal_cdf (- x) = 1"
  by (simp add: std_normal_cdf_def erfc_def erf_minus field_simps)

text \<open>
  Claim C8. For finite option data with \<open>sigma > 0\<close>, \<open>T > 0\<close>, \<open>S > 0\<close>, \<open>K > 0\<close> and
  \<open>r \<ge> 0\<close>, \<^verbatim>\<open>ExactPrice\<close> returns a finite price \<open>c\<close> when the payoff name ends in
  \<^verbatim>\<open>Call\<close> and a finite price \<open>q\<close> when it does not, and \<open>c - q = S - K * exp (- r * T)\<close>.
\<close>

theorem ExactPrice_put_call_parity:
  assumes "0 < sigma" and "0 < T" and "0 < S" and "0 < K" and "0 \<le> r"
    and "mis_option_data call = \<lparr>od_vol = Fin sigma, od_r = Fin r, od_T = Fin T,
                                 od_S = Fin S, od_K = Fin K, od_NSIM = n\<rparr>"
    and "mis_option_data put = mis_option_data call"
    and "3 \<le> length (mis_names call)" and "regex_match_Call (mis_names call ! 2)"
    and "3 \<le> length (mis_names put)" and "\<not> regex_match_Call (mis_names put ! 2)"
  shows "\<exists>c q. ExactPrice mis call = Inr (mis\<lparr>exact_price := Fin c\<rparr>)
             \<and> ExactPrice mis put = Inr (mis\<lparr>exact_price := Fin q\<rparr>)
             \<and> c - q = S - K * exp (- r * T)"
proof -
  define d1 where "d1 = (ln (S / K) + (r + sigma * sigma / 2) * T) / (sigma * sqrt T)"
  define d2 where "d2 = d1 - sigma * sqrt T"
  define c where
    "c = S * exp ((r - r) * T) * std_normal_cdf d1 - K * exp (- r * T) * std_normal_cdf d2"
  define q where
    "q = K * exp (- r * T) * std_normal_cdf (- d2) - S * exp ((r - r) * T) * std_normal_cdf (- d1)"
  have pos: "0 < S / K" "sigma * sqrt T \<noteq> 0" "\<not> T < 0" "\<not> S / K < 0" "S / K \<noteq> 0" "K \<noteq> 0"
    using assms by (simp_all add: not_less divide_nonneg_nonneg less_imp_le)
  have "ExactPrice mis call = Inr (mis\<lparr>exact_price := Fin c\<rparr>)"
    using assms(6,8,9) pos by (simp add: ExactPrice_def Let_def c_def d1_def d2_def)
  moreover have "ExactPrice mis put = Inr (mis\<lparr>exact_price := Fin q\<rparr>)"
    using assms(6,7,10,11) pos by (simp add: ExactPrice_def Let_def q_def d1_def d2_def)
  moreover have "c - q = S - K * exp (- r * T)"
  proof -
    have "c - q = S * (std_normal_cdf d1 + std_normal_cdf (- d1))
                  - K * exp (- r * T) * (std_normal_cdf d2 + std_normal_cdf (- d2))"
      by (simp add: c_def q_def algebra_simps)
    then show ?thesis by (simp add: std_normal_cdf_symmetric)
  qed
  ultimately show ?thesis by blast
qed

theorem ExactPrice_put_call_parity_witness:
  "(0::real) < 0.3 \<and> (0::real) < 0.25 \<and> (0::real) < 60 \<and> (0::real) < 65 \<and> (0::real) \<le> 0.08
   \<and> mis_option_data put_benchmark = mis_option_data call_benchmark
   \<and> regex_match_Call (mis_names call_benchmark ! 2)
   \<and> \<not> regex_match_Call (mis_names put_benchmark ! 2)
   \<and> (\<exists>c q. ExactPrice mis0 call_benchmark = Inr (mis0\<lparr>exact_price := Fin c\<rparr>)
           \<and> ExactPrice mis0 put_benchmark = Inr (mis0\<lparr>exact_price := Fin q\<rparr>)
           \<and> c - q = 60 - 65 * exp (- 0.08 * 0.25))"
  using ExactPrice_put_call_parity [of "0.3" "0.25" 60 65 "0.08" call_benchmark 1000 put_benchmark mis0]
  by (simp add: call_benchmark_def put_benchmark_def regex_match_Call_def)

end
